theory Spec2Isabelle
  imports Complex_Main "HOL-Library.Multiset"
begin

section \<open>Data model of app.py\<close>

text \<open>
  The three mapped classes \<open>User\<close>, \<open>Product\<close>, \<open>Order\<close> and the association table
  \<open>order_product\<close>. The primary key \<open>id\<close> of each class is written \<open>u_id\<close>,
  \<open>p_id\<close>, \<open>o_id\<close> (\<open>id\<close> is a constant of HOL, and the fields of different
  records need different names). A \<open>datetime\<close> is a point on a linear time axis;
  \<open>Float\<close> is read as a real number (rounding is not modelled).
\<close>

type_synonym datetime = int

record user =
  u_id :: int
  name :: string
  address :: "string option"
  email :: string

record product =
  p_id :: int
  product_name :: string
  price :: real

record order =
  o_id :: int
  order_date :: datetime
  user_id :: int

text \<open>
  The database: one list of rows per table, in insertion order. A row of
  \<open>order_product\<close> is the pair \<open>(order_id, product_id)\<close>. The length limits of
  the string columns and the transactions of the database are not modelled: a handler
  runs from start to end on the store it is given.
\<close>

record store =
  users :: "user list"
  products :: "product list"
  orders :: "order list"
  order_product :: "(int \<times> int) list"

text \<open>
  The constraints the tables declare that the results below rely on: the primary
  keys, the unique email and the composite primary key of \<open>order_product\<close>.
\<close>

definition pk_users :: "store \<Rightarrow> bool" where
  "pk_users s = distinct (map u_id (users s))"

definition pk_products :: "store \<Rightarrow> bool" where
  "pk_products s = distinct (map p_id (products s))"

definition pk_orders :: "store \<Rightarrow> bool" where
  "pk_orders s = distinct (map o_id (orders s))"

definition unique_email :: "store \<Rightarrow> bool" where
  "unique_email s = distinct (map email (users s))"

definition uq_order_product :: "store \<Rightarrow> bool" where
  "uq_order_product s = distinct (order_product s)"

section \<open>Requests and responses\<close>

text \<open>
  A request body is a JSON object. A key of it is absent, present with \<open>null\<close>, or
  present with a value. The model covers the bodies whose values have the JSON type
  of the schema field they are loaded into (a string for \<open>name\<close>, \<open>email\<close>,
  \<open>address\<close>, \<open>product_name\<close> and \<open>order_date\<close>, an integer for \<open>id\<close> and
  \<open>user_id\<close>, a number for \<open>price\<close>); the names of all other keys of the body
  are kept in a list.
\<close>

datatype 'a field = Absent | Null | Val 'a

text \<open>
  The value under \<open>product_ids\<close>, which \<open>create_order\<close> reads from the raw body: a
  list of integers, or something that is not a list, of which the handler only
  observes its truth value.
\<close>

datatype pids = PidList "int list" | NotList bool

record user_payload =
  up_id :: "int field"
  up_name :: "string field"
  up_email :: "string field"
  up_address :: "string field"
  up_unknown :: "string list"

record product_payload =
  pp_id :: "int field"
  pp_product_name :: "string field"
  pp_price :: "real field"
  pp_unknown :: "string list"

record order_payload =
  op_id :: "int field"
  op_order_date :: "string field"
  op_user_id :: "int field"
  op_product_ids :: "pids field"
  op_unknown :: "string list"

text \<open>\<open>e.messages\<close> of a marshmallow \<open>ValidationError\<close>: field name and its messages.\<close>

type_synonym messages = "(string \<times> string list) list"

text \<open>
  Every error response of the handlers, named after its message, with the uncaught
  exceptions a handler can raise (\<open>MultipleResultsFound\<close> of
  \<open>scalar_one_or_none\<close>, \<open>KeyError\<close> of a dictionary subscript).
\<close>

datatype error =
    ValidationError messages
  | EmailAlreadyExists
  | InvalidUserId
  | InvalidProductId
  | InvalidOrderId
  | InvalidOrderOrProductId
  | ProductIdsMustBeList
  | ProductsNotFound "int list"
  | InvalidUserIdOrForeignKey
  | ProductNotInOrder
  | MultipleResultsFound
  | KeyError string

fun http_status :: "error \<Rightarrow> nat" where
  "http_status (ProductsNotFound missing) = 404"
| "http_status ProductNotInOrder = 404"
| "http_status MultipleResultsFound = 500"
| "http_status (KeyError k) = 500"
| "http_status e = 400"

datatype reply =
    UserJson user
  | ProductJson product
  | OrderJson order
  | OrdersJson "order list"
  | ProductsJson "product list"
  | ProductAlreadyInOrder
  | DeletedUser int

section \<open>Schemas\<close>

text \<open>
  \<open>Schema.load\<close> of marshmallow checks every declared field and every key of the
  body: a required field that is absent, a \<open>null\<close> where \<open>allow_none\<close> is not set, a
  value that fails a validator, and a key that is no declared field (no schema of
  app.py sets \<open>Meta.unknown\<close>, so the default \<open>RAISE\<close> applies) each give a message.
  With \<open>partial=True\<close> absent required fields are accepted.
\<close>

fun field_errors :: "bool \<Rightarrow> bool \<Rightarrow> ('a \<Rightarrow> string list) \<Rightarrow> 'a field \<Rightarrow> string list" where
  "field_errors required allow_none validators Absent =
     (if required then [''Missing data for required field.''] else [])"
| "field_errors required allow_none validators Null =
     (if allow_none then [] else [''Field may not be null.''])"
| "field_errors required allow_none validators (Val v) = validators v"

definition collect :: "(string \<times> string list) list \<Rightarrow> string list \<Rightarrow> messages" where
  "collect per_field unknown =
     filter (\<lambda>km. snd km \<noteq> []) per_field @ map (\<lambda>k. (k, [''Unknown field.''])) unknown"

fun present :: "'a field \<Rightarrow> 'a option" where
  "present (Val v) = Some v"
| "present f = None"

fun present_nullable :: "'a field \<Rightarrow> 'a option option" where
  "present_nullable Absent = None"
| "present_nullable Null = Some None"
| "present_nullable (Val v) = Some (Some v)"

text \<open>The dictionary a successful \<open>load\<close> returns: a key is there or not.\<close>

record user_data =
  ud_id :: "int option"
  ud_name :: "string option"
  ud_email :: "string option"
  ud_address :: "string option option"

text \<open>
  \<open>UserSchema\<close> (lines 94-100): \<open>name\<close> required with \<open>Length(min=1)\<close>, \<open>email\<close> a
  required \<open>fields.Email\<close> (its syntax check is the parameter \<open>email_valid\<close>),
  \<open>address\<close> optional and nullable, with the length validator the auto field takes
  from \<open>String(255)\<close>; \<open>id\<close> is the auto field of the primary key, not required.
\<close>

definition user_schema_errors :: "(string \<Rightarrow> bool) \<Rightarrow> bool \<Rightarrow> user_payload \<Rightarrow> messages" where
  "user_schema_errors email_valid partial data =
     collect
       [(''id'', field_errors False False (\<lambda>v. []) (up_id data)),
        (''name'', field_errors (\<not> partial) False
           (\<lambda>v. if length v < 1 then [''Shorter than minimum length 1.''] else []) (up_name data)),
        (''address'', field_errors False True
           (\<lambda>v. if length v > 255 then [''Longer than maximum length 255.''] else [])
           (up_address data)),
        (''email'', field_errors (\<not> partial) False
           (\<lambda>v. if email_valid v then [] else [''Not a valid email address.'']) (up_email data))]
       (up_unknown data)"

definition user_schema_load ::
  "(string \<Rightarrow> bool) \<Rightarrow> bool \<Rightarrow> user_payload \<Rightarrow> messages + user_data" where
  "user_schema_load email_valid partial data =
     (case user_schema_errors email_valid partial data of
        [] \<Rightarrow> Inr \<lparr>ud_id = present (up_id data), ud_name = present (up_name data),
                  ud_email = present (up_email data),
                  ud_address = present_nullable (up_address data)\<rparr>
      | m # ms \<Rightarrow> Inl (m # ms))"

section \<open>Queries\<close>

text \<open>\<open>db.session.get(Model, id)\<close>: the row with that primary key, if any.\<close>

definition get_user_row :: "store \<Rightarrow> int \<Rightarrow> user option" where
  "get_user_row s i = find (\<lambda>u. u_id u = i) (users s)"

definition get_product_row :: "store \<Rightarrow> int \<Rightarrow> product option" where
  "get_product_row s i = find (\<lambda>p. p_id p = i) (products s)"

definition get_order_row :: "store \<Rightarrow> int \<Rightarrow> order option" where
  "get_order_row s i = find (\<lambda>r. o_id r = i) (orders s)"

fun scalar_one_or_none :: "'a list \<Rightarrow> error + 'a option" where
  "scalar_one_or_none [] = Inr None"
| "scalar_one_or_none [x] = Inr (Some x)"
| "scalar_one_or_none (x # y # zs) = Inl MultipleResultsFound"

section \<open>User endpoints\<close>

text \<open>
  \<open>create_user\<close> (lines 155-177). The id of the new row is chosen by the database
  (AUTO_INCREMENT) and is the parameter \<open>new_id\<close>.
\<close>

definition create_user ::
  "(string \<Rightarrow> bool) \<Rightarrow> int \<Rightarrow> user_payload \<Rightarrow> store \<Rightarrow> (error + reply) \<times> store" where
  "create_user email_valid new_id data s =
     (case user_schema_load email_valid False data of
        Inl msgs \<Rightarrow> (Inl (ValidationError msgs), s)
      | Inr loaded \<Rightarrow>
         (case ud_email loaded of
            None \<Rightarrow> (Inl (KeyError ''email''), s)
          | Some e \<Rightarrow>
             (case scalar_one_or_none (filter (\<lambda>u. email u = e) (users s)) of
                Inl err \<Rightarrow> (Inl err, s)
              | Inr (Some existing) \<Rightarrow> (Inl EmailAlreadyExists, s)
              | Inr None \<Rightarrow>
                 (case ud_name loaded of
                    None \<Rightarrow> (Inl (KeyError ''name''), s)
                  | Some n \<Rightarrow>
                     (let user = \<lparr>u_id = new_id, name = n,
                                  address = (case ud_address loaded of None \<Rightarrow> None | Some a \<Rightarrow> a),
                                  email = e\<rparr>
                      in (Inr (UserJson user), s\<lparr>users := users s @ [user]\<rparr>))))))"

text \<open>\<open>d.get(key, default)\<close> on a loaded dictionary.\<close>

fun dict_get :: "'a option \<Rightarrow> 'a \<Rightarrow> 'a" where
  "dict_get None dflt = dflt"
| "dict_get (Some v) dflt = v"

text \<open>
  \<open>update_user\<close> (lines 197-220). The commit writes the three assigned columns to
  the row whose primary key is \<open>user_id\<close>.
\<close>

definition update_user ::
  "(string \<Rightarrow> bool) \<Rightarrow> int \<Rightarrow> user_payload \<Rightarrow> store \<Rightarrow> (error + reply) \<times> store" where
  "update_user email_valid uid data s =
     (case get_user_row s uid of
        None \<Rightarrow> (Inl InvalidUserId, s)
      | Some user \<Rightarrow>
         (case user_schema_load email_valid True data of
            Inl msgs \<Rightarrow> (Inl (ValidationError msgs), s)
          | Inr payload \<Rightarrow>
             (case (if ud_email payload \<noteq> None \<and> ud_email payload \<noteq> Some (email user)
                    then scalar_one_or_none
                           (filter (\<lambda>u. Some (email u) = ud_email payload) (users s))
                    else Inr None) of
                Inl err \<Rightarrow> (Inl err, s)
              | Inr (Some exists) \<Rightarrow> (Inl EmailAlreadyExists, s)
              | Inr None \<Rightarrow>
                 (let user' = \<lparr>u_id = u_id user,
                               name = dict_get (ud_name payload) (name user),
                               address = dict_get (ud_address payload) (address user),
                               email = dict_get (ud_email payload) (email user)\<rparr>
                  in (Inr (UserJson user'),
                      s\<lparr>users := map (\<lambda>r. if u_id r = uid then user' else r) (users s)\<rparr>)))))"

text \<open>
  \<open>delete_user\<close> (lines 224-231). \<open>User.orders\<close> is declared with
  \<open>cascade='all, delete-orphan'\<close> (lines 61-63), so \<open>db.session.delete(user)\<close>
  deletes the orders of the user with it, and deleting an order deletes its rows of the
  \<open>secondary\<close> table of \<open>Order.products\<close> (lines 75-77).
\<close>

definition delete_user :: "int \<Rightarrow> store \<Rightarrow> (error + reply) \<times> store" where
  "delete_user uid s =
     (case get_user_row s uid of
        None \<Rightarrow> (Inl InvalidUserId, s)
      | Some user \<Rightarrow>
         (let owned = map o_id (filter (\<lambda>r. user_id r = u_id user) (orders s))
          in (Inr (DeletedUser uid),
              s\<lparr>users := filter (\<lambda>r. u_id r \<noteq> u_id user) (users s),
                orders := filter (\<lambda>r. user_id r \<noteq> u_id user) (orders s),
                order_product := filter (\<lambda>r. fst r \<notin> set owned) (order_product s)\<rparr>)))"

section \<open>Product endpoints\<close>

record product_data =
  pd_id :: "int option"
  pd_product_name :: "string option"
  pd_price :: "real option"

text \<open>
  \<open>ProductSchema\<close> (lines 103-113): \<open>product_name\<close> required with \<open>Length(min=1)\<close>,
  \<open>price\<close> required, with the validator \<open>validate_price\<close>.
\<close>

definition validate_price :: "real \<Rightarrow> string list" where
  "validate_price v = (if v < 0 then [''Price must be non-negative.''] else [])"

definition product_schema_errors :: "bool \<Rightarrow> product_payload \<Rightarrow> messages" where
  "product_schema_errors partial data =
     collect
       [(''id'', field_errors False False (\<lambda>v. []) (pp_id data)),
        (''product_name'', field_errors (\<not> partial) False
           (\<lambda>v. if length v < 1 then [''Shorter than minimum length 1.''] else [])
           (pp_product_name data)),
        (''price'', field_errors (\<not> partial) False validate_price (pp_price data))]
       (pp_unknown data)"

definition product_schema_load :: "bool \<Rightarrow> product_payload \<Rightarrow> messages + product_data" where
  "product_schema_load partial data =
     (case product_schema_errors partial data of
        [] \<Rightarrow> Inr \<lparr>pd_id = present (pp_id data),
                  pd_product_name = present (pp_product_name data),
                  pd_price = present (pp_price data)\<rparr>
      | m # ms \<Rightarrow> Inl (m # ms))"

text \<open>\<open>update_product\<close> (lines 267-281).\<close>

definition update_product :: "int \<Rightarrow> product_payload \<Rightarrow> store \<Rightarrow> (error + reply) \<times> store" where
  "update_product pid data s =
     (case get_product_row s pid of
        None \<Rightarrow> (Inl InvalidProductId, s)
      | Some product \<Rightarrow>
         (case product_schema_load True data of
            Inl msgs \<Rightarrow> (Inl (ValidationError msgs), s)
          | Inr payload \<Rightarrow>
             (let product' = \<lparr>p_id = p_id product,
                              product_name = dict_get (pd_product_name payload) (product_name product),
                              price = dict_get (pd_price payload) (price product)\<rparr>
              in (Inr (ProductJson product'),
                  s\<lparr>products := map (\<lambda>r. if p_id r = pid then product' else r) (products s)\<rparr>))))"

section \<open>Order endpoints\<close>

record order_data =
  od_id :: "int option"
  od_order_date :: "datetime option"
  od_user_id :: "int option"

text \<open>
  \<open>OrderSchema\<close> (lines 116-122): the auto fields of the columns of \<open>Order\<close> with the
  foreign key (\<open>id\<close>, \<open>user_id\<close>; \<open>user_id\<close> is required, its column being
  \<open>nullable=False\<close> without a default) and the declared
  \<open>order_date = fields.DateTime(required=True)\<close>. The schema has no field
  \<open>product_ids\<close>: that key of the body is one of the keys that are no declared
  field. The parser of the \<open>DateTime\<close> field is the parameter \<open>fromiso\<close>.
\<close>

definition order_schema_errors :: "(string \<Rightarrow> datetime option) \<Rightarrow> order_payload \<Rightarrow> messages" where
  "order_schema_errors fromiso data =
     collect
       [(''id'', field_errors False False (\<lambda>v. []) (op_id data)),
        (''order_date'', field_errors True False
           (\<lambda>v. case fromiso v of None \<Rightarrow> [''Not a valid datetime.''] | Some d \<Rightarrow> [])
           (op_order_date data)),
        (''user_id'', field_errors True False (\<lambda>v. []) (op_user_id data))]
       ((if op_product_ids data = Absent then [] else [''product_ids'']) @ op_unknown data)"

definition order_schema_load ::
  "(string \<Rightarrow> datetime option) \<Rightarrow> order_payload \<Rightarrow> messages + order_data" where
  "order_schema_load fromiso data =
     (case order_schema_errors fromiso data of
        [] \<Rightarrow> Inr \<lparr>od_id = present (op_id data),
                  od_order_date = (case op_order_date data of Val v \<Rightarrow> fromiso v | _ \<Rightarrow> None),
                  od_user_id = present (op_user_id data)\<rparr>
      | m # ms \<Rightarrow> Inl (m # ms))"

text \<open>
  Line 323-325: \<open>payload.get('product_ids', []) or []\<close>, then the \<open>isinstance\<close> test.
\<close>

fun read_product_ids :: "pids field \<Rightarrow> error + int list" where
  "read_product_ids Absent = Inr []"
| "read_product_ids Null = Inr []"
| "read_product_ids (Val (PidList ids)) = Inr ids"
| "read_product_ids (Val (NotList truthy)) = (if truthy then Inl ProductIdsMustBeList else Inr [])"

text \<open>
  Lines 327-337: the products whose id is in \<open>product_ids\<close>, the ids of
  \<open>product_ids\<close> that were not found, and the loop that appends each product found to
  \<open>order.products\<close> unless it is there.
\<close>

definition append_products :: "product list \<Rightarrow> product list" where
  "append_products found = fold (\<lambda>p acc. if p \<in> set acc then acc else acc @ [p]) found []"

definition initial_products :: "store \<Rightarrow> int list \<Rightarrow> error + product list" where
  "initial_products s product_ids =
     (if product_ids \<noteq> [] then
        (let found = filter (\<lambda>p. p_id p \<in> set product_ids) (products s);
             found_ids = set (map p_id found);
             missing = filter (\<lambda>pid. pid \<notin> found_ids) product_ids
         in if missing \<noteq> [] then Inl (ProductsNotFound missing)
            else Inr (append_products found))
      else Inr [])"

text \<open>
  \<open>create_order\<close> (lines 298-346). \<open>now\<close> is the value of \<open>datetime.utcnow()\<close>,
  \<open>new_id\<close> the primary key the database gives the row. What \<open>data.get('order_date')\<close>
  returns was loaded by a \<open>DateTime\<close> field and is no \<open>str\<close>, so the branch of
  line 310 is not taken. The commit fails with \<open>IntegrityError\<close>, and is rolled
  back, when \<open>user_id\<close> is the id of no user.
\<close>

definition create_order ::
  "(string \<Rightarrow> datetime option) \<Rightarrow> datetime \<Rightarrow> int \<Rightarrow> order_payload \<Rightarrow> store
     \<Rightarrow> (error + reply) \<times> store" where
  "create_order fromiso now new_id payload s =
     (case order_schema_load fromiso payload of
        Inl msgs \<Rightarrow> (Inl (ValidationError msgs), s)
      | Inr data \<Rightarrow>
         (case od_user_id data of
            None \<Rightarrow> (Inl (KeyError ''user_id''), s)
          | Some uid \<Rightarrow>
             (let ord = \<lparr>o_id = new_id,
                         order_date = (case od_order_date data of Some d \<Rightarrow> d | None \<Rightarrow> now),
                         user_id = uid\<rparr>
              in case read_product_ids (op_product_ids payload) of
                   Inl err \<Rightarrow> (Inl err, s)
                 | Inr product_ids \<Rightarrow>
                    (case initial_products s product_ids of
                       Inl err \<Rightarrow> (Inl err, s)
                     | Inr attached \<Rightarrow>
                        (if uid \<in> set (map u_id (users s))
                         then (Inr (OrderJson ord),
                               s\<lparr>orders := orders s @ [ord],
                                 order_product := order_product s
                                    @ map (\<lambda>p. (new_id, p_id p)) attached\<rparr>)
                         else (Inl InvalidUserIdOrForeignKey, s))))))"

text \<open>\<open>order.products\<close>: the products the rows of \<open>order_product\<close> link to the order.\<close>

definition order_products :: "store \<Rightarrow> int \<Rightarrow> product list" where
  "order_products s oid =
     concat (map (\<lambda>r. filter (\<lambda>p. p_id p = snd r) (products s))
               (filter (\<lambda>r. fst r = oid) (order_product s)))"

text \<open>\<open>add_product_to_order\<close> (lines 350-363).\<close>

definition add_product_to_order :: "int \<Rightarrow> int \<Rightarrow> store \<Rightarrow> (error + reply) \<times> store" where
  "add_product_to_order oid pid s =
     (case (get_order_row s oid, get_product_row s pid) of
        (Some ord, Some product) \<Rightarrow>
          (if product \<in> set (order_products s (o_id ord))
           then (Inr ProductAlreadyInOrder, s)
           else (Inr (OrderJson ord),
                 s\<lparr>order_product := order_product s @ [(o_id ord, p_id product)]\<rparr>))
      | _ \<Rightarrow> (Inl InvalidOrderOrProductId, s))"

text \<open>\<open>remove_product_from_order\<close> (lines 367-380).\<close>

definition remove_product_from_order :: "int \<Rightarrow> int \<Rightarrow> store \<Rightarrow> (error + reply) \<times> store" where
  "remove_product_from_order oid pid s =
     (case (get_order_row s oid, get_product_row s pid) of
        (Some ord, Some product) \<Rightarrow>
          (if product \<notin> set (order_products s (o_id ord))
           then (Inl ProductNotInOrder, s)
           else (Inr (OrderJson ord),
                 s\<lparr>order_product :=
                     filter (\<lambda>r. r \<noteq> (o_id ord, p_id product)) (order_product s)\<rparr>))
      | _ \<Rightarrow> (Inl InvalidOrderOrProductId, s))"

text \<open>
  \<open>get_orders_for_user\<close> (lines 384-388): \<open>ORDER BY order_date DESC\<close>; it has no
  error response.
\<close>

definition get_orders_for_user :: "int \<Rightarrow> store \<Rightarrow> error + reply" where
  "get_orders_for_user uid s =
     Inr (OrdersJson (rev (sort_key order_date (filter (\<lambda>r. user_id r = uid) (orders s)))))"

text \<open>\<open>get_products_for_order\<close> (lines 392-397).\<close>

definition get_products_for_order :: "int \<Rightarrow> store \<Rightarrow> error + reply" where
  "get_products_for_order oid s =
     (case get_order_row s oid of
        None \<Rightarrow> Inl InvalidOrderId
      | Some ord \<Rightarrow> Inr (ProductsJson (order_products s (o_id ord))))"

section \<open>Auxiliary facts\<close>

lemma filter_key_unique:
  "distinct (map f xs) \<Longrightarrow> x \<in> set xs \<Longrightarrow> filter (\<lambda>u. f u = f x) xs = [x]"
proof (induction xs)
  case Nil then show ?case by simp
next
  case (Cons a xs)
  show ?case
  proof (cases "a = x")
    case True
    with Cons.prems have "\<forall>u\<in>set xs. f u \<noteq> f x" by (auto simp: image_iff)
    then have "filter (\<lambda>u. f u = f x) xs = []" by (simp add: filter_empty_conv)
    with True show ?thesis by simp
  next
    case False
    with Cons.prems have "x \<in> set xs" "f a \<noteq> f x" "distinct (map f xs)" by (auto simp: image_iff)
    with Cons.IH show ?thesis by simp
  qed
qed

lemma filter_key_absent:
  "k \<notin> f ` set xs \<Longrightarrow> filter (\<lambda>u. f u = k) xs = []"
  by (auto simp: filter_empty_conv)

lemma find_key: "find (\<lambda>r. f r = k) xs = Some x \<Longrightarrow> f x = k \<and> x \<in> set xs"
  by (induction xs) (auto split: if_splits)

lemma filter_key_find:
  assumes "distinct (map f xs)" "find (\<lambda>r. f r = k) xs = Some x"
  shows "filter (\<lambda>r. f r = k) xs = [x]"
proof -
  from assms(2) have "f x = k" "x \<in> set xs" using find_key [of f k xs x] by simp_all
  with assms(1) show ?thesis using filter_key_unique [of f xs x] by simp
qed

lemma find_None_iff_key: "find (\<lambda>r. f r = k) xs = None \<longleftrightarrow> k \<notin> f ` set xs"
  by (induction xs) auto

lemma find_map_upd_same:
  "find (\<lambda>r. f r = k) xs = Some x \<Longrightarrow> f y = k \<Longrightarrow>
   find (\<lambda>r. f r = k) (map (\<lambda>r. if f r = k then y else r) xs) = Some y"
  by (induction xs) (auto split: if_splits)

lemma find_map_upd_other:
  "f y = k \<Longrightarrow> i \<noteq> k \<Longrightarrow>
   find (\<lambda>r. f r = i) (map (\<lambda>r. if f r = k then y else r) xs) = find (\<lambda>r. f r = i) xs"
  by (induction xs) auto

lemma map_upd_id:
  "distinct (map f xs) \<Longrightarrow> find (\<lambda>r. f r = k) xs = Some x \<Longrightarrow>
   map (\<lambda>r. if f r = k then x else r) xs = xs"
proof (induction xs)
  case Nil then show ?case by simp
next
  case (Cons a xs)
  show ?case
  proof (cases "f a = k")
    case True
    with Cons.prems have ax: "a = x" by simp
    from Cons.prems True have "\<forall>r\<in>set xs. f r \<noteq> k" by (auto simp: image_iff)
    then have "map (\<lambda>r. if f r = k then x else r) xs = xs" by (simp add: map_idI)
    with True ax show ?thesis by simp
  next
    case False
    with Cons show ?thesis by simp
  qed
qed

lemma count_list_distinct:
  "distinct xs \<Longrightarrow> x \<in> set xs \<Longrightarrow> count_list xs x = 1"
  by (induction xs) auto

lemma field_errors_required_nil:
  "field_errors True False val f = [] \<Longrightarrow> \<exists>v. f = Val v"
  by (cases f) auto

lemma collect_nil: "collect pf un = [] \<longleftrightarrow> (\<forall>km\<in>set pf. snd km = []) \<and> un = []"
  by (auto simp: collect_def filter_empty_conv)

lemma user_load_valid:
  "user_schema_errors ev partial d = [] \<Longrightarrow>
   user_schema_load ev partial d =
     Inr \<lparr>ud_id = present (up_id d), ud_name = present (up_name d),
          ud_email = present (up_email d), ud_address = present_nullable (up_address d)\<rparr>"
  by (simp add: user_schema_load_def)

lemma user_load_cases:
  "user_schema_load ev partial d =
     (if user_schema_errors ev partial d = []
      then Inr \<lparr>ud_id = present (up_id d), ud_name = present (up_name d),
                ud_email = present (up_email d), ud_address = present_nullable (up_address d)\<rparr>
      else Inl (user_schema_errors ev partial d))"
  by (simp add: user_schema_load_def split: list.splits)

lemma user_valid_name:
  "user_schema_errors ev False d = [] \<Longrightarrow> \<exists>n. up_name d = Val n"
  by (auto simp: user_schema_errors_def collect_nil dest: field_errors_required_nil)

lemma user_eta:
  "\<lparr>u_id = u_id (user :: user), name = name user, address = address user, email = email user\<rparr> = user"
  by (cases user) simp

lemma product_eta:
  "\<lparr>p_id = p_id (product :: product), product_name = product_name product, price = price product\<rparr>
     = product"
  by (cases product) simp

lemma product_load_cases:
  "product_schema_load partial d =
     (if product_schema_errors partial d = []
      then Inr \<lparr>pd_id = present (pp_id d), pd_product_name = present (pp_product_name d),
                pd_price = present (pp_price d)\<rparr>
      else Inl (product_schema_errors partial d))"
  by (simp add: product_schema_load_def split: list.splits)

lemma order_load_cases:
  "order_schema_load fromiso d =
     (if order_schema_errors fromiso d = []
      then Inr \<lparr>od_id = present (op_id d),
                od_order_date = (case op_order_date d of Val v \<Rightarrow> fromiso v | _ \<Rightarrow> None),
                od_user_id = present (op_user_id d)\<rparr>
      else Inl (order_schema_errors fromiso d))"
  by (simp add: order_schema_load_def split: list.splits)

lemma in_order_products:
  "p \<in> set (order_products s oid) \<longleftrightarrow>
     p \<in> set (products s) \<and> (oid, p_id p) \<in> set (order_product s)"
  by (auto simp: order_products_def)

lemma count_joined:
  assumes one: "filter (\<lambda>p. p_id p = pid) P = [product]"
  shows "count_list (concat (map (\<lambda>r. filter (\<lambda>p. p_id p = snd r) P)
                         (filter (\<lambda>r. fst r = oid) J))) product
         = count_list J (oid, pid)"
proof -
  have "product \<in> set (filter (\<lambda>p. p_id p = pid) P)" using one by simp
  then have pid: "p_id product = pid" by simp
  have other: "count_list (filter (\<lambda>p. p_id p = b) P) product = 0" if "b \<noteq> pid" for b
    using that pid by (simp add: count_list_0_iff)
  show ?thesis
  proof (induction J)
    case Nil then show ?case by simp
  next
    case (Cons r J)
    obtain a b where r: "r = (a, b)" by (cases r)
    show ?case
    proof (cases "a = oid")
      case False with Cons r show ?thesis by simp
    next
      case True
      show ?thesis
      proof (cases "b = pid")
        case True with \<open>a = oid\<close> Cons r one show ?thesis by simp
      next
        case False with \<open>a = oid\<close> Cons r other show ?thesis by simp
      qed
    qed
  qed
qed

lemma update_user_fail:
  "update_user ev uid data s = (Inl e, s') \<Longrightarrow> s' = s"
  by (auto simp: update_user_def Let_def split: option.splits sum.splits if_splits)

lemma update_user_ok:
  assumes "get_user_row s uid = Some user" and "update_user ev uid data s = (Inr rep, s')"
  shows "user_schema_errors ev True data = [] \<and>
         rep = UserJson \<lparr>u_id = u_id user,
                 name = dict_get (present (up_name data)) (name user),
                 address = dict_get (present_nullable (up_address data)) (address user),
                 email = dict_get (present (up_email data)) (email user)\<rparr> \<and>
         s' = s\<lparr>users := map (\<lambda>r. if u_id r = uid then
                 \<lparr>u_id = u_id user,
                  name = dict_get (present (up_name data)) (name user),
                  address = dict_get (present_nullable (up_address data)) (address user),
                  email = dict_get (present (up_email data)) (email user)\<rparr> else r) (users s)\<rparr>"
  using assms
  by (auto simp: update_user_def user_load_cases Let_def split: option.splits sum.splits if_splits)

lemma update_user_address_only_ok:
  assumes "get_user_row s uid = Some user" "up_email data = Absent"
    "user_schema_errors ev True data = []"
  shows "\<exists>rep. fst (update_user ev uid data s) = Inr rep"
  using assms by (simp add: update_user_def user_load_cases Let_def)

section \<open>Claims\<close>

text \<open>
  \<open>order_date\<close> and the schema. Line 319 gives the order
  \<open>order_date_val or datetime.utcnow()\<close>, with the comment that a request without
  a date defaults to now, and the column has the same default (line 70). But line 304
  hands the body to \<open>order_schema.load\<close> first, and \<open>OrderSchema\<close> declares
  \<open>order_date\<close> with \<open>required=True\<close>: a body without the key is refused
  (\<open>create_order_absent_date_rejected\<close>), a body that is accepted carries a date
  (\<open>order_valid_date\<close>), and so the answer of \<open>create_order\<close> never depends on
  the current time (\<open>create_order_default_unreachable\<close>).
\<close>

lemma order_valid_date:
  assumes "order_schema_errors fromiso d = []"
  shows "\<exists>v t. op_order_date d = Val v \<and> fromiso v = Some t"
proof -
  from assms have e: "field_errors True False
           (\<lambda>v. case fromiso v of None \<Rightarrow> [''Not a valid datetime.''] | Some d \<Rightarrow> [])
           (op_order_date d) = []"
    by (simp add: order_schema_errors_def collect_nil)
  then obtain v where v: "op_order_date d = Val v" using field_errors_required_nil by blast
  with e have "fromiso v \<noteq> None" by (auto split: option.splits)
  with v show ?thesis by auto
qed

lemma create_order_absent_date_rejected:
  "op_order_date payload = Absent \<Longrightarrow>
   \<exists>msgs. create_order fromiso now new_id payload s = (Inl (ValidationError msgs), s)
          \<and> (''order_date'', [''Missing data for required field.'']) \<in> set msgs"
  by (simp add: create_order_def order_load_cases order_schema_errors_def collect_def)

lemma create_order_default_unreachable:
  "create_order fromiso now new_id payload s = create_order fromiso now' new_id payload s"
proof (cases "order_schema_errors fromiso payload = []")
  case False
  then show ?thesis by (simp add: create_order_def order_load_cases)
next
  case True
  then obtain v t where "op_order_date payload = Val v" "fromiso v = Some t"
    using order_valid_date by blast
  with True show ?thesis
    by (simp add: create_order_def order_load_cases Let_def split: option.splits sum.splits)
qed

lemma create_order_with_date_example:
  "create_order (map_of [(''2025-08-15T14:30:00'', 1755268200)]) 1762250000 5
     \<lparr>op_id = Absent, op_order_date = Val ''2025-08-15T14:30:00'', op_user_id = Val 1,
      op_product_ids = Absent, op_unknown = []\<rparr>
     \<lparr>users = [\<lparr>u_id = 1, name = ''Ann'', address = None, email = ''ann@shop.org''\<rparr>],
      products = [], orders = [], order_product = []\<rparr>
   = (Inr (OrderJson \<lparr>o_id = 5, order_date = 1755268200, user_id = 1\<rparr>),
      \<lparr>users = [\<lparr>u_id = 1, name = ''Ann'', address = None, email = ''ann@shop.org''\<rparr>],
       products = [], orders = [\<lparr>o_id = 5, order_date = 1755268200, user_id = 1\<rparr>],
       order_product = []\<rparr>)"
  by (simp add: create_order_def order_schema_load_def order_schema_errors_def collect_def
        initial_products_def Let_def)

text \<open>
  Claim C1. With user 1 stored, \<open>create_order\<close> on the body \<open>{"user_id": 1}\<close>,
  which has no \<open>order_date\<close>, does not create an order dated now: the answer is the
  validation message 'Missing data for required field.' for \<open>order_date\<close>
  (status 400), and the store is unchanged.
\<close>

theorem create_order_without_date_refused:
  "create_order (map_of [(''2025-08-15T14:30:00'', 1755268200)]) 1762250000 5
     \<lparr>op_id = Absent, op_order_date = Absent, op_user_id = Val 1,
      op_product_ids = Absent, op_unknown = []\<rparr>
     \<lparr>users = [\<lparr>u_id = 1, name = ''Ann'', address = None, email = ''ann@shop.org''\<rparr>],
      products = [], orders = [], order_product = []\<rparr>
   = (Inl (ValidationError [(''order_date'', [''Missing data for required field.''])]),
      \<lparr>users = [\<lparr>u_id = 1, name = ''Ann'', address = None, email = ''ann@shop.org''\<rparr>],
       products = [], orders = [], order_product = []\<rparr>)"
  by (simp add: create_order_def order_schema_load_def order_schema_errors_def collect_def)

text \<open>
  \<open>product_ids\<close> and the schema. The check of lines 327-334 reports every id of
  \<open>product_ids\<close> that is no product id (\<open>initial_products_missing\<close>), but a body
  that has the key \<open>product_ids\<close> does not get there: line 304 hands the whole body to
  \<open>order_schema.load\<close>, which has no such field
  (\<open>create_order_product_ids_rejected\<close>).
\<close>

lemma create_order_product_ids_rejected:
  "op_product_ids payload \<noteq> Absent \<Longrightarrow>
   \<exists>msgs. create_order fromiso now new_id payload s = (Inl (ValidationError msgs), s)
          \<and> (''product_ids'', [''Unknown field.'']) \<in> set msgs"
  by (simp add: create_order_def order_load_cases order_schema_errors_def collect_def)

lemma initial_products_missing:
  assumes "\<exists>pid\<in>set ids. pid \<notin> p_id ` set (products s)"
  shows "initial_products s ids =
           Inl (ProductsNotFound (filter (\<lambda>pid. pid \<notin> p_id ` set (products s)) ids))"
proof -
  have eq: "filter (\<lambda>pid. pid \<notin> p_id ` {p \<in> set (products s). p_id p \<in> set ids}) ids
          = filter (\<lambda>pid. pid \<notin> p_id ` set (products s)) ids"
    by (rule filter_cong) auto
  from assms have ne: "filter (\<lambda>pid. pid \<notin> p_id ` set (products s)) ids \<noteq> []"
    by (auto simp: filter_empty_conv)
  from assms have "ids \<noteq> []" by auto
  with eq ne show ?thesis by (simp add: initial_products_def Let_def)
qed

text \<open>
  Claim C2. With user 1 and product 7 stored, \<open>create_order\<close> on the body
  \<open>{"user_id": 1, "order_date": "2025-08-15T14:30:00", "product_ids": [7, 99]}\<close>
  leaves the store unchanged, as the claim says, but its answer is the validation
  message 'Unknown field.' for \<open>product_ids\<close> (status 400), not 'Products not found'
  with the missing id 99.
\<close>

theorem create_order_missing_product_unknown_field:
  "create_order (map_of [(''2025-08-15T14:30:00'', 1755268200)]) 1762250000 5
     \<lparr>op_id = Absent, op_order_date = Val ''2025-08-15T14:30:00'', op_user_id = Val 1,
      op_product_ids = Val (PidList [7, 99]), op_unknown = []\<rparr>
     \<lparr>users = [\<lparr>u_id = 1, name = ''Ann'', address = None, email = ''ann@shop.org''\<rparr>],
      products = [\<lparr>p_id = 7, product_name = ''Lamp'', price = 12\<rparr>],
      orders = [], order_product = []\<rparr>
   = (Inl (ValidationError [(''product_ids'', [''Unknown field.''])]),
      \<lparr>users = [\<lparr>u_id = 1, name = ''Ann'', address = None, email = ''ann@shop.org''\<rparr>],
       products = [\<lparr>p_id = 7, product_name = ''Lamp'', price = 12\<rparr>],
       orders = [], order_product = []\<rparr>)"
  by (simp add: create_order_def order_schema_load_def order_schema_errors_def collect_def)

text \<open>
  Claim C3. For an order and a product that exist (the rows of \<open>order_product\<close> and
  the product ids being unique), \<open>add_product_to_order\<close> succeeds, and a second call
  with the same ids succeeds with 'Product already in order' and leaves the store of
  the first call as it is. After it the link is in \<open>order_product\<close> exactly once and
  \<open>get_products_for_order\<close> lists the product exactly once.
\<close>

theorem add_product_to_order_idempotent:
  assumes ord: "get_order_row s oid = Some ord"
    and prod: "get_product_row s pid = Some product"
    and uq: "uq_order_product s" and pk: "pk_products s"
  shows "\<exists>r1 s1. add_product_to_order oid pid s = (Inr r1, s1)
           \<and> add_product_to_order oid pid s1 = (Inr ProductAlreadyInOrder, s1)
           \<and> count_list (order_product s1) (oid, pid) = 1
           \<and> (\<exists>ps. get_products_for_order oid s1 = Inr (ProductsJson ps)
                    \<and> count_list ps product = 1)"
proof -
  from ord have oid: "o_id ord = oid"
    using find_key [of o_id oid "orders s" ord] by (simp add: get_order_row_def)
  from prod have pid: "p_id product = pid" and pin: "product \<in> set (products s)"
    using find_key [of p_id pid "products s" product] by (simp_all add: get_product_row_def)
  from pk prod have one: "filter (\<lambda>p. p_id p = pid) (products s) = [product]"
    using filter_key_find [of p_id "products s" pid product]
    by (simp add: pk_products_def get_product_row_def)
  define s1 where "s1 = (if (oid, pid) \<in> set (order_product s) then s
                         else s\<lparr>order_product := order_product s @ [(oid, pid)]\<rparr>)"
  have first: "\<exists>r1. add_product_to_order oid pid s = (Inr r1, s1)"
    using ord prod oid pid pin by (simp add: add_product_to_order_def in_order_products s1_def)
  have ord1: "get_order_row s1 oid = Some ord" and prod1: "get_product_row s1 pid = Some product"
    using ord prod by (simp_all add: s1_def get_order_row_def get_product_row_def)
  have link: "(oid, pid) \<in> set (order_product s1)" and pin1: "product \<in> set (products s1)"
    using pin by (simp_all add: s1_def)
  have second: "add_product_to_order oid pid s1 = (Inr ProductAlreadyInOrder, s1)"
    using ord1 prod1 oid pid link pin1 by (simp add: add_product_to_order_def in_order_products)
  have once: "count_list (order_product s1) (oid, pid) = 1"
  proof (cases "(oid, pid) \<in> set (order_product s)")
    case True
    with uq have "count_list (order_product s) (oid, pid) = 1"
      using True by (simp add: uq_order_product_def count_list_distinct)
    with True show ?thesis by (simp add: s1_def)
  next
    case False then show ?thesis by (simp add: s1_def)
  qed
  have prods1: "products s1 = products s" by (simp add: s1_def)
  have "count_list (order_products s1 oid) product = count_list (order_product s1) (oid, pid)"
    unfolding order_products_def prods1 using one by (rule count_joined)
  with once ord1 oid
  have "get_products_for_order oid s1 = Inr (ProductsJson (order_products s1 oid))
          \<and> count_list (order_products s1 oid) product = 1"
    by (simp add: get_products_for_order_def)
  with first second once show ?thesis by blast
qed

theorem add_product_to_order_idempotent_witness:
  "get_order_row
     \<lparr>users = [\<lparr>u_id = 1, name = ''Ann'', address = None, email = ''ann@shop.org''\<rparr>],
      products = [\<lparr>p_id = 7, product_name = ''Lamp'', price = 12\<rparr>],
      orders = [\<lparr>o_id = 10, order_date = 100, user_id = 1\<rparr>], order_product = []\<rparr> 10
     = Some \<lparr>o_id = 10, order_date = 100, user_id = 1\<rparr>
   \<and> get_product_row
     \<lparr>users = [\<lparr>u_id = 1, name = ''Ann'', address = None, email = ''ann@shop.org''\<rparr>],
      products = [\<lparr>p_id = 7, product_name = ''Lamp'', price = 12\<rparr>],
      orders = [\<lparr>o_id = 10, order_date = 100, user_id = 1\<rparr>], order_product = []\<rparr> 7
     = Some \<lparr>p_id = 7, product_name = ''Lamp'', price = 12\<rparr>
   \<and> (\<exists>r1 s1. add_product_to_order 10 7
          \<lparr>users = [\<lparr>u_id = 1, name = ''Ann'', address = None, email = ''ann@shop.org''\<rparr>],
           products = [\<lparr>p_id = 7, product_name = ''Lamp'', price = 12\<rparr>],
           orders = [\<lparr>o_id = 10, order_date = 100, user_id = 1\<rparr>], order_product = []\<rparr>
          = (Inr r1, s1)
        \<and> add_product_to_order 10 7 s1 = (Inr ProductAlreadyInOrder, s1)
        \<and> count_list (order_product s1) (10, 7) = 1
        \<and> (\<exists>ps. get_products_for_order 10 s1 = Inr (ProductsJson ps)
              \<and> count_list ps \<lparr>p_id = 7, product_name = ''Lamp'', price = 12\<rparr> = 1))"
proof -
  let ?s = "\<lparr>users = [\<lparr>u_id = 1, name = ''Ann'', address = None, email = ''ann@shop.org''\<rparr>],
      products = [\<lparr>p_id = 7, product_name = ''Lamp'', price = 12\<rparr>],
      orders = [\<lparr>o_id = 10, order_date = 100, user_id = 1\<rparr>], order_product = []\<rparr>"
  have o: "get_order_row ?s 10 = Some \<lparr>o_id = 10, order_date = 100, user_id = 1\<rparr>"
    by (simp add: get_order_row_def)
  have p: "get_product_row ?s 7 = Some \<lparr>p_id = 7, product_name = ''Lamp'', price = 12\<rparr>"
    by (simp add: get_product_row_def)
  have u: "uq_order_product ?s" by (simp add: uq_order_product_def)
  have k: "pk_products ?s" by (simp add: pk_products_def)
  from add_product_to_order_idempotent [OF o p u k] o p show ?thesis by blast
qed

text \<open>
  Claim C4. In a state that holds a user with email \<open>e\<close> (the email column being
  unique), \<open>create_user\<close> with a body that passes \<open>UserSchema\<close> and has email \<open>e\<close>
  answers 'Email already exists' and leaves the store as it was. So of two such calls
  in a state without \<open>e\<close>, the first adds the user and the second is refused.
\<close>

theorem create_user_email_conflict:
  assumes uq: "unique_email s"
    and v1: "user_schema_errors email_valid False d1 = []" "up_email d1 = Val e"
    and v2: "user_schema_errors email_valid False d2 = []" "up_email d2 = Val e"
  shows "(e \<in> email ` set (users s) \<longrightarrow>
            create_user email_valid n1 d1 s = (Inl EmailAlreadyExists, s)) \<and>
         (e \<notin> email ` set (users s) \<longrightarrow>
            (\<exists>u. create_user email_valid n1 d1 s = (Inr (UserJson u), s\<lparr>users := users s @ [u]\<rparr>) \<and>
                 email u = e \<and>
                 create_user email_valid n2 d2 (s\<lparr>users := users s @ [u]\<rparr>)
                   = (Inl EmailAlreadyExists, s\<lparr>users := users s @ [u]\<rparr>)))"
proof (intro conjI impI)
  assume "e \<in> email ` set (users s)"
  then obtain x where x: "x \<in> set (users s)" "email x = e" by auto
  from uq x have "filter (\<lambda>u. email u = e) (users s) = [x]"
    using filter_key_unique [of email "users s" x] by (simp add: unique_email_def)
  then show "create_user email_valid n1 d1 s = (Inl EmailAlreadyExists, s)"
    using v1 by (simp add: create_user_def user_load_valid)
next
  assume fresh: "e \<notin> email ` set (users s)"
  from v1 obtain n where n: "up_name d1 = Val n" using user_valid_name by blast
  define u where "u = \<lparr>u_id = n1, name = n,
      address = (case present_nullable (up_address d1) of None \<Rightarrow> None | Some a \<Rightarrow> a), email = e\<rparr>"
  have f0: "filter (\<lambda>u. email u = e) (users s) = []"
    using fresh by (rule filter_key_absent)
  have c1: "create_user email_valid n1 d1 s = (Inr (UserJson u), s\<lparr>users := users s @ [u]\<rparr>)"
    using v1 n f0 by (simp add: create_user_def user_load_valid u_def Let_def)
  have f1: "filter (\<lambda>r. email r = e) (users s @ [u]) = [u]"
    using f0 by (simp add: u_def)
  have c2: "create_user email_valid n2 d2 (s\<lparr>users := users s @ [u]\<rparr>)
                   = (Inl EmailAlreadyExists, s\<lparr>users := users s @ [u]\<rparr>)"
    using v2 f1 by (simp add: create_user_def user_load_valid)
  have "email u = e" by (simp add: u_def)
  with c1 c2 show "\<exists>u. create_user email_valid n1 d1 s = (Inr (UserJson u), s\<lparr>users := users s @ [u]\<rparr>) \<and>
                 email u = e \<and>
                 create_user email_valid n2 d2 (s\<lparr>users := users s @ [u]\<rparr>)
                   = (Inl EmailAlreadyExists, s\<lparr>users := users s @ [u]\<rparr>)" by blast
qed

theorem create_user_email_conflict_witness:
  "unique_email \<lparr>users = [\<lparr>u_id = 1, name = ''Ann'', address = None, email = ''ann@shop.org''\<rparr>],
                  products = [], orders = [], order_product = []\<rparr>
   \<and> user_schema_errors (\<lambda>a. CHR ''@'' \<in> set a) False
        \<lparr>up_id = Absent, up_name = Val ''Bob'', up_email = Val ''ann@shop.org'',
         up_address = Absent, up_unknown = []\<rparr> = []
   \<and> create_user (\<lambda>a. CHR ''@'' \<in> set a) 2
        \<lparr>up_id = Absent, up_name = Val ''Bob'', up_email = Val ''ann@shop.org'',
         up_address = Absent, up_unknown = []\<rparr>
        \<lparr>users = [\<lparr>u_id = 1, name = ''Ann'', address = None, email = ''ann@shop.org''\<rparr>],
         products = [], orders = [], order_product = []\<rparr>
      = (Inl EmailAlreadyExists,
         \<lparr>users = [\<lparr>u_id = 1, name = ''Ann'', address = None, email = ''ann@shop.org''\<rparr>],
          products = [], orders = [], order_product = []\<rparr>)
   \<and> unique_email \<lparr>users = [], products = [], orders = [], order_product = []\<rparr>
   \<and> (\<exists>u. create_user (\<lambda>a. CHR ''@'' \<in> set a) 1
             \<lparr>up_id = Absent, up_name = Val ''Bob'', up_email = Val ''ann@shop.org'',
              up_address = Absent, up_unknown = []\<rparr>
             \<lparr>users = [], products = [], orders = [], order_product = []\<rparr>
           = (Inr (UserJson u), \<lparr>users = [u], products = [], orders = [], order_product = []\<rparr>)
         \<and> create_user (\<lambda>a. CHR ''@'' \<in> set a) 2
             \<lparr>up_id = Absent, up_name = Val ''Bob'', up_email = Val ''ann@shop.org'',
              up_address = Absent, up_unknown = []\<rparr>
             \<lparr>users = [u], products = [], orders = [], order_product = []\<rparr>
           = (Inl EmailAlreadyExists,
              \<lparr>users = [u], products = [], orders = [], order_product = []\<rparr>))"
proof -
  let ?ev = "\<lambda>a. CHR ''@'' \<in> set a"
  let ?d = "\<lparr>up_id = Absent, up_name = Val ''Bob'', up_email = Val ''ann@shop.org'',
         up_address = Absent, up_unknown = []\<rparr>"
  let ?s1 = "\<lparr>users = [\<lparr>u_id = 1, name = ''Ann'', address = None, email = ''ann@shop.org''\<rparr>],
         products = [], orders = [], order_product = []\<rparr>"
  let ?s0 = "\<lparr>users = [], products = [], orders = [], order_product = []\<rparr>"
  have v: "user_schema_errors ?ev False ?d = []"
    by (simp add: user_schema_errors_def collect_def)
  have e: "up_email ?d = Val ''ann@shop.org''" by simp
  have u1: "unique_email ?s1" by (simp add: unique_email_def)
  have u0: "unique_email ?s0" by (simp add: unique_email_def)
  have a: "create_user ?ev 2 ?d ?s1 = (Inl EmailAlreadyExists, ?s1)"
    using create_user_email_conflict [OF u1 v e v e, of 2 2] by simp
  have "\<exists>u. create_user ?ev 1 ?d ?s0 = (Inr (UserJson u), ?s0\<lparr>users := users ?s0 @ [u]\<rparr>) \<and>
          email u = ''ann@shop.org'' \<and>
          create_user ?ev 2 ?d (?s0\<lparr>users := users ?s0 @ [u]\<rparr>)
            = (Inl EmailAlreadyExists, ?s0\<lparr>users := users ?s0 @ [u]\<rparr>)"
    using create_user_email_conflict [OF u0 v e v e, of 1 2] by simp
  then obtain u where
    "create_user ?ev 1 ?d ?s0 = (Inr (UserJson u), ?s0\<lparr>users := users ?s0 @ [u]\<rparr>)"
    "create_user ?ev 2 ?d (?s0\<lparr>users := users ?s0 @ [u]\<rparr>)
            = (Inl EmailAlreadyExists, ?s0\<lparr>users := users ?s0 @ [u]\<rparr>)"
    by blast
  then have b: "\<exists>u. create_user ?ev 1 ?d ?s0
           = (Inr (UserJson u), \<lparr>users = [u], products = [], orders = [], order_product = []\<rparr>)
         \<and> create_user ?ev 2 ?d \<lparr>users = [u], products = [], orders = [], order_product = []\<rparr>
           = (Inl EmailAlreadyExists,
              \<lparr>users = [u], products = [], orders = [], order_product = []\<rparr>)"
    by (intro exI [of _ u]) simp
  from v u1 u0 a b show ?thesis by blast
qed

text \<open>
  Claim C5. \<open>update_user\<close> on an existing user id: whatever the answer, the user is
  still stored under its id afterwards, each of \<open>name\<close>, \<open>email\<close>, \<open>address\<close>
  that the body does not supply has its prior value, every other user and the three
  other tables are as before. When the body supplies neither \<open>name\<close> nor \<open>email\<close>
  and passes the schema, the call succeeds and the address is the one supplied.
\<close>

theorem update_user_frame:
  assumes found: "get_user_row s uid = Some user"
    and run: "update_user email_valid uid data s = (r, s')"
  shows "\<exists>user'. get_user_row s' uid = Some user'
           \<and> (up_name data = Absent \<longrightarrow> name user' = name user)
           \<and> (up_email data = Absent \<longrightarrow> email user' = email user)
           \<and> (up_address data = Absent \<longrightarrow> address user' = address user)
           \<and> (up_name data = Absent \<and> up_email data = Absent
                \<and> user_schema_errors email_valid True data = [] \<longrightarrow>
                 r = Inr (UserJson user')
                 \<and> address user' = dict_get (present_nullable (up_address data)) (address user))
           \<and> (\<forall>i. i \<noteq> uid \<longrightarrow> get_user_row s' i = get_user_row s i)
           \<and> products s' = products s \<and> orders s' = orders s
           \<and> order_product s' = order_product s"
proof (cases r)
  case (Inl e)
  with run have same: "s' = s" using update_user_fail by blast
  have "\<not> (up_email data = Absent \<and> user_schema_errors email_valid True data = [])"
    using update_user_address_only_ok [OF found, of data email_valid] run Inl by auto
  with same found show ?thesis by auto
next
  case (Inr rep)
  let ?u = "\<lparr>u_id = u_id user,
                 name = dict_get (present (up_name data)) (name user),
                 address = dict_get (present_nullable (up_address data)) (address user),
                 email = dict_get (present (up_email data)) (email user)\<rparr>"
  from update_user_ok [OF found run [unfolded Inr]]
  have rep: "rep = UserJson ?u"
    and s': "s' = s\<lparr>users := map (\<lambda>r. if u_id r = uid then ?u else r) (users s)\<rparr>"
    by blast+
  from found have uid: "u_id user = uid"
    using find_key [of u_id uid "users s" user] by (simp add: get_user_row_def)
  have g: "get_user_row s' uid = Some ?u"
    using found uid s' find_map_upd_same [of u_id uid "users s" user ?u]
    by (simp add: get_user_row_def)
  have other: "\<forall>i. i \<noteq> uid \<longrightarrow> get_user_row s' i = get_user_row s i"
    using uid s' find_map_upd_other [of u_id ?u uid _ "users s"]
    by (simp add: get_user_row_def)
  have rest: "products s' = products s \<and> orders s' = orders s
           \<and> order_product s' = order_product s" using s' by simp
  show ?thesis
    using g other rest rep Inr by (intro exI [of _ ?u]) simp
qed

theorem update_user_frame_witness:
  "get_user_row
     \<lparr>users = [\<lparr>u_id = 1, name = ''Ann'', address = None, email = ''ann@shop.org''\<rparr>,
               \<lparr>u_id = 2, name = ''Bob'', address = Some ''1 Oak Rd'', email = ''bob@shop.org''\<rparr>],
      products = [], orders = [], order_product = []\<rparr> 1
     = Some \<lparr>u_id = 1, name = ''Ann'', address = None, email = ''ann@shop.org''\<rparr>
   \<and> update_user (\<lambda>a. CHR ''@'' \<in> set a) 1
        \<lparr>up_id = Absent, up_name = Absent, up_email = Absent, up_address = Val ''5 Elm St'',
         up_unknown = []\<rparr>
        \<lparr>users = [\<lparr>u_id = 1, name = ''Ann'', address = None, email = ''ann@shop.org''\<rparr>,
               \<lparr>u_id = 2, name = ''Bob'', address = Some ''1 Oak Rd'', email = ''bob@shop.org''\<rparr>],
         products = [], orders = [], order_product = []\<rparr>
     = (Inr (UserJson \<lparr>u_id = 1, name = ''Ann'', address = Some ''5 Elm St'',
                      email = ''ann@shop.org''\<rparr>),
        \<lparr>users = [\<lparr>u_id = 1, name = ''Ann'', address = Some ''5 Elm St'',
                    email = ''ann@shop.org''\<rparr>,
                  \<lparr>u_id = 2, name = ''Bob'', address = Some ''1 Oak Rd'', email = ''bob@shop.org''\<rparr>],
         products = [], orders = [], order_product = []\<rparr>)
   \<and> user_schema_errors (\<lambda>a. CHR ''@'' \<in> set a) True
        \<lparr>up_id = Absent, up_name = Absent, up_email = Absent, up_address = Val ''5 Elm St'',
         up_unknown = []\<rparr> = []
   \<and> (\<exists>user'. get_user_row
          \<lparr>users = [\<lparr>u_id = 1, name = ''Ann'', address = Some ''5 Elm St'',
                    email = ''ann@shop.org''\<rparr>,
                  \<lparr>u_id = 2, name = ''Bob'', address = Some ''1 Oak Rd'', email = ''bob@shop.org''\<rparr>],
           products = [], orders = [], order_product = []\<rparr> 1 = Some user'
        \<and> name user' = ''Ann'' \<and> email user' = ''ann@shop.org''
        \<and> address user' = Some ''5 Elm St'')
   \<and> (\<exists>r s' user'. update_user (\<lambda>a. CHR ''@'' \<in> set a) 2
          \<lparr>up_id = Absent, up_name = Val ''Robert'', up_email = Absent, up_address = Absent,
           up_unknown = []\<rparr>
          \<lparr>users = [\<lparr>u_id = 1, name = ''Ann'', address = None, email = ''ann@shop.org''\<rparr>,
                 \<lparr>u_id = 2, name = ''Bob'', address = Some ''1 Oak Rd'', email = ''bob@shop.org''\<rparr>],
           products = [], orders = [], order_product = []\<rparr> = (r, s')
        \<and> get_user_row s' 2 = Some user' \<and> name user' = ''Robert''
        \<and> email user' = ''bob@shop.org'' \<and> address user' = Some ''1 Oak Rd'')"
proof -
  let ?ev = "\<lambda>a. CHR ''@'' \<in> set a"
  let ?ann = "\<lparr>u_id = 1, name = ''Ann'', address = None, email = ''ann@shop.org''\<rparr>"
  let ?bob = "\<lparr>u_id = 2, name = ''Bob'', address = Some ''1 Oak Rd'', email = ''bob@shop.org''\<rparr>"
  let ?s = "\<lparr>users = [?ann, ?bob], products = [], orders = [], order_product = []\<rparr>"
  let ?d = "\<lparr>up_id = Absent, up_name = Absent, up_email = Absent, up_address = Val ''5 Elm St'',
         up_unknown = []\<rparr>"
  let ?ann' = "\<lparr>u_id = 1, name = ''Ann'', address = Some ''5 Elm St'', email = ''ann@shop.org''\<rparr>"
  let ?s' = "\<lparr>users = [?ann', ?bob], products = [], orders = [], order_product = []\<rparr>"
  have found: "get_user_row ?s 1 = Some ?ann" by (simp add: get_user_row_def)
  have valid: "user_schema_errors ?ev True ?d = []"
    by (simp add: user_schema_errors_def collect_def)
  have run: "update_user ?ev 1 ?d ?s = (Inr (UserJson ?ann'), ?s')"
    by (simp add: update_user_def get_user_row_def user_schema_load_def valid Let_def)
  from update_user_frame [OF found run] valid
  have "\<exists>user'. get_user_row ?s' 1 = Some user'
        \<and> name user' = ''Ann'' \<and> email user' = ''ann@shop.org''
        \<and> address user' = Some ''5 Elm St''"
    by simp
  note first = this
  let ?d2 = "\<lparr>up_id = Absent, up_name = Val ''Robert'', up_email = Absent, up_address = Absent,
           up_unknown = []\<rparr>"
  let ?bob' = "\<lparr>u_id = 2, name = ''Robert'', address = Some ''1 Oak Rd'',
                email = ''bob@shop.org''\<rparr>"
  let ?s2 = "\<lparr>users = [?ann, ?bob'], products = [], orders = [], order_product = []\<rparr>"
  have found2: "get_user_row ?s 2 = Some ?bob" by (simp add: get_user_row_def)
  have run2: "update_user ?ev 2 ?d2 ?s = (Inr (UserJson ?bob'), ?s2)"
    by (simp add: update_user_def get_user_row_def user_schema_load_def
          user_schema_errors_def collect_def Let_def)
  from update_user_frame [OF found2 run2]
  have "\<exists>user'. get_user_row ?s2 2 = Some user' \<and> email user' = ''bob@shop.org''
          \<and> address user' = Some ''1 Oak Rd''"
    by auto
  then have "\<exists>user'. get_user_row ?s2 2 = Some user' \<and> name user' = ''Robert''
          \<and> email user' = ''bob@shop.org'' \<and> address user' = Some ''1 Oak Rd''"
    by (simp add: get_user_row_def)
  with run2 have second: "\<exists>r s' user'. update_user ?ev 2 ?d2 ?s = (r, s')
        \<and> get_user_row s' 2 = Some user' \<and> name user' = ''Robert''
        \<and> email user' = ''bob@shop.org'' \<and> address user' = Some ''1 Oak Rd''"
    by blast
  from found run valid first second show ?thesis by blast
qed

text \<open>
  Claim C6. \<open>delete_user\<close> on an existing user id (order ids being unique) succeeds;
  afterwards the user is gone, and for every order that belonged to the user the order
  is gone (looking it up, as \<open>get_products_for_order\<close> does, answers 'Invalid order id')
  and no row of \<open>order_product\<close> refers to it.
\<close>

theorem delete_user_cascade:
  assumes pk: "pk_orders s" and found: "get_user_row s uid = Some user"
  shows "\<exists>s'. delete_user uid s = (Inr (DeletedUser uid), s')
           \<and> get_user_row s' uid = None
           \<and> (\<forall>r\<in>set (orders s). user_id r = uid \<longrightarrow>
                 get_order_row s' (o_id r) = None
                 \<and> get_products_for_order (o_id r) s' = Inl InvalidOrderId
                 \<and> (\<forall>pid. (o_id r, pid) \<notin> set (order_product s')))"
proof -
  from found have uid: "u_id user = uid"
    using find_key [of u_id uid "users s" user] by (simp add: get_user_row_def)
  let ?owned = "map o_id (filter (\<lambda>r. user_id r = uid) (orders s))"
  let ?s' = "s\<lparr>users := filter (\<lambda>r. u_id r \<noteq> uid) (users s),
                orders := filter (\<lambda>r. user_id r \<noteq> uid) (orders s),
                order_product := filter (\<lambda>r. fst r \<notin> set ?owned) (order_product s)\<rparr>"
  have run: "delete_user uid s = (Inr (DeletedUser uid), ?s')"
    using found uid by (simp add: delete_user_def Let_def)
  have gone: "get_user_row ?s' uid = None"
    by (auto simp: get_user_row_def find_None_iff_key)
  have ords: "get_order_row ?s' (o_id r) = None
                 \<and> get_products_for_order (o_id r) ?s' = Inl InvalidOrderId
                 \<and> (\<forall>pid. (o_id r, pid) \<notin> set (order_product ?s'))"
    if r: "r \<in> set (orders s)" "user_id r = uid" for r
  proof -
    have "x = r" if "x \<in> set (orders s)" "o_id x = o_id r" for x
      using pk r that by (auto simp: pk_orders_def distinct_map inj_on_def)
    then have "o_id r \<notin> o_id ` set (filter (\<lambda>r. user_id r \<noteq> uid) (orders s))"
      using r by auto
    then have g: "get_order_row ?s' (o_id r) = None"
      by (simp add: get_order_row_def find_None_iff_key)
    have "o_id r \<in> set ?owned" using r by auto
    then have "\<forall>pid. (o_id r, pid) \<notin> set (order_product ?s')" by auto
    with g show ?thesis by (simp add: get_products_for_order_def)
  qed
  from run gone ords show ?thesis by blast
qed

theorem delete_user_cascade_witness:
  "pk_orders
     \<lparr>users = [\<lparr>u_id = 1, name = ''Ann'', address = None, email = ''ann@shop.org''\<rparr>,
               \<lparr>u_id = 2, name = ''Bob'', address = None, email = ''bob@shop.org''\<rparr>],
      products = [\<lparr>p_id = 7, product_name = ''Lamp'', price = 12\<rparr>],
      orders = [\<lparr>o_id = 10, order_date = 100, user_id = 1\<rparr>,
                \<lparr>o_id = 11, order_date = 300, user_id = 2\<rparr>,
                \<lparr>o_id = 12, order_date = 200, user_id = 1\<rparr>],
      order_product = [(10, 7), (11, 7)]\<rparr>
   \<and> (\<exists>s'. delete_user 1
          \<lparr>users = [\<lparr>u_id = 1, name = ''Ann'', address = None, email = ''ann@shop.org''\<rparr>,
                    \<lparr>u_id = 2, name = ''Bob'', address = None, email = ''bob@shop.org''\<rparr>],
           products = [\<lparr>p_id = 7, product_name = ''Lamp'', price = 12\<rparr>],
           orders = [\<lparr>o_id = 10, order_date = 100, user_id = 1\<rparr>,
                     \<lparr>o_id = 11, order_date = 300, user_id = 2\<rparr>,
                     \<lparr>o_id = 12, order_date = 200, user_id = 1\<rparr>],
           order_product = [(10, 7), (11, 7)]\<rparr> = (Inr (DeletedUser 1), s')
        \<and> get_user_row s' 1 = None
        \<and> get_products_for_order 10 s' = Inl InvalidOrderId
        \<and> get_products_for_order 12 s' = Inl InvalidOrderId
        \<and> (10, 7) \<notin> set (order_product s'))"
proof -
  let ?s = "\<lparr>users = [\<lparr>u_id = 1, name = ''Ann'', address = None, email = ''ann@shop.org''\<rparr>,
               \<lparr>u_id = 2, name = ''Bob'', address = None, email = ''bob@shop.org''\<rparr>],
      products = [\<lparr>p_id = 7, product_name = ''Lamp'', price = 12\<rparr>],
      orders = [\<lparr>o_id = 10, order_date = 100, user_id = 1\<rparr>,
                \<lparr>o_id = 11, order_date = 300, user_id = 2\<rparr>,
                \<lparr>o_id = 12, order_date = 200, user_id = 1\<rparr>],
      order_product = [(10, 7), (11, 7)]\<rparr>"
  have pk: "pk_orders ?s" by (simp add: pk_orders_def)
  have f: "get_user_row ?s 1
             = Some \<lparr>u_id = 1, name = ''Ann'', address = None, email = ''ann@shop.org''\<rparr>"
    by (simp add: get_user_row_def)
  from delete_user_cascade [OF pk f] obtain s' where
    run: "delete_user 1 ?s = (Inr (DeletedUser 1), s')" and gone: "get_user_row s' 1 = None"
    and all: "\<forall>r\<in>set (orders ?s). user_id r = 1 \<longrightarrow>
                 get_order_row s' (o_id r) = None
                 \<and> get_products_for_order (o_id r) s' = Inl InvalidOrderId
                 \<and> (\<forall>pid. (o_id r, pid) \<notin> set (order_product s'))"
    by blast
  from all have "get_products_for_order 10 s' = Inl InvalidOrderId"
    "get_products_for_order 12 s' = Inl InvalidOrderId" "(10, 7) \<notin> set (order_product s')"
    by simp_all
  with pk run gone show ?thesis by blast
qed

text \<open>
  Claim C7. \<open>remove_product_from_order\<close> answers 'Invalid order or product id' when
  the order id or the product id is unknown, and 'Product not in order' when both exist
  and \<open>order_product\<close> has no row for the pair; whenever it answers with an error the
  store is unchanged.
\<close>

theorem remove_product_from_order_failures:
  "(get_order_row s oid = None \<or> get_product_row s pid = None \<longrightarrow>
      remove_product_from_order oid pid s = (Inl InvalidOrderOrProductId, s))
   \<and> (get_order_row s oid \<noteq> None \<and> get_product_row s pid \<noteq> None
        \<and> (oid, pid) \<notin> set (order_product s) \<longrightarrow>
      remove_product_from_order oid pid s = (Inl ProductNotInOrder, s))
   \<and> (\<forall>e s'. remove_product_from_order oid pid s = (Inl e, s') \<longrightarrow> s' = s)"
proof (intro conjI impI allI)
  assume "get_order_row s oid = None \<or> get_product_row s pid = None"
  then show "remove_product_from_order oid pid s = (Inl InvalidOrderOrProductId, s)"
    by (auto simp: remove_product_from_order_def split: option.splits)
next
  assume a: "get_order_row s oid \<noteq> None \<and> get_product_row s pid \<noteq> None
        \<and> (oid, pid) \<notin> set (order_product s)"
  then obtain ord product where f: "get_order_row s oid = Some ord" "get_product_row s pid = Some product"
    by auto
  then have "o_id ord = oid" "p_id product = pid"
    using find_key [of o_id oid "orders s" ord] find_key [of p_id pid "products s" product]
    by (simp_all add: get_order_row_def get_product_row_def)
  with a have "product \<notin> set (order_products s (o_id ord))"
    by (simp add: in_order_products)
  with f show "remove_product_from_order oid pid s = (Inl ProductNotInOrder, s)"
    by (simp add: remove_product_from_order_def)
next
  fix e s'
  assume "remove_product_from_order oid pid s = (Inl e, s')"
  then show "s' = s"
    by (auto simp: remove_product_from_order_def split: option.splits if_splits)
qed

theorem remove_product_from_order_failures_witness:
  "remove_product_from_order 99 7
     \<lparr>users = [\<lparr>u_id = 1, name = ''Ann'', address = None, email = ''ann@shop.org''\<rparr>],
      products = [\<lparr>p_id = 7, product_name = ''Lamp'', price = 12\<rparr>,
                  \<lparr>p_id = 8, product_name = ''Desk'', price = 80\<rparr>],
      orders = [\<lparr>o_id = 10, order_date = 100, user_id = 1\<rparr>], order_product = [(10, 7)]\<rparr>
   = (Inl InvalidOrderOrProductId,
     \<lparr>users = [\<lparr>u_id = 1, name = ''Ann'', address = None, email = ''ann@shop.org''\<rparr>],
      products = [\<lparr>p_id = 7, product_name = ''Lamp'', price = 12\<rparr>,
                  \<lparr>p_id = 8, product_name = ''Desk'', price = 80\<rparr>],
      orders = [\<lparr>o_id = 10, order_date = 100, user_id = 1\<rparr>], order_product = [(10, 7)]\<rparr>)
   \<and> remove_product_from_order 10 99
     \<lparr>users = [\<lparr>u_id = 1, name = ''Ann'', address = None, email = ''ann@shop.org''\<rparr>],
      products = [\<lparr>p_id = 7, product_name = ''Lamp'', price = 12\<rparr>,
                  \<lparr>p_id = 8, product_name = ''Desk'', price = 80\<rparr>],
      orders = [\<lparr>o_id = 10, order_date = 100, user_id = 1\<rparr>], order_product = [(10, 7)]\<rparr>
   = (Inl InvalidOrderOrProductId,
     \<lparr>users = [\<lparr>u_id = 1, name = ''Ann'', address = None, email = ''ann@shop.org''\<rparr>],
      products = [\<lparr>p_id = 7, product_name = ''Lamp'', price = 12\<rparr>,
                  \<lparr>p_id = 8, product_name = ''Desk'', price = 80\<rparr>],
      orders = [\<lparr>o_id = 10, order_date = 100, user_id = 1\<rparr>], order_product = [(10, 7)]\<rparr>)
   \<and> remove_product_from_order 10 8
     \<lparr>users = [\<lparr>u_id = 1, name = ''Ann'', address = None, email = ''ann@shop.org''\<rparr>],
      products = [\<lparr>p_id = 7, product_name = ''Lamp'', price = 12\<rparr>,
                  \<lparr>p_id = 8, product_name = ''Desk'', price = 80\<rparr>],
      orders = [\<lparr>o_id = 10, order_date = 100, user_id = 1\<rparr>], order_product = [(10, 7)]\<rparr>
   = (Inl ProductNotInOrder,
     \<lparr>users = [\<lparr>u_id = 1, name = ''Ann'', address = None, email = ''ann@shop.org''\<rparr>],
      products = [\<lparr>p_id = 7, product_name = ''Lamp'', price = 12\<rparr>,
                  \<lparr>p_id = 8, product_name = ''Desk'', price = 80\<rparr>],
      orders = [\<lparr>o_id = 10, order_date = 100, user_id = 1\<rparr>], order_product = [(10, 7)]\<rparr>)"
proof -
  let ?s = "\<lparr>users = [\<lparr>u_id = 1, name = ''Ann'', address = None, email = ''ann@shop.org''\<rparr>],
      products = [\<lparr>p_id = 7, product_name = ''Lamp'', price = 12\<rparr>,
                  \<lparr>p_id = 8, product_name = ''Desk'', price = 80\<rparr>],
      orders = [\<lparr>o_id = 10, order_date = 100, user_id = 1\<rparr>], order_product = [(10, 7)]\<rparr>"
  have a: "get_order_row ?s 99 = None \<or> get_product_row ?s 7 = None"
    by (simp add: get_order_row_def)
  have b: "get_order_row ?s 10 = None \<or> get_product_row ?s 99 = None"
    by (simp add: get_product_row_def)
  have c: "get_order_row ?s 10 \<noteq> None \<and> get_product_row ?s 8 \<noteq> None
             \<and> (10, 8) \<notin> set (order_product ?s)"
    by (simp add: get_order_row_def get_product_row_def)
  from remove_product_from_order_failures [of ?s 99 7] a
  have 1: "remove_product_from_order 99 7 ?s = (Inl InvalidOrderOrProductId, ?s)" by blast
  from remove_product_from_order_failures [of ?s 10 99] b
  have 2: "remove_product_from_order 10 99 ?s = (Inl InvalidOrderOrProductId, ?s)" by blast
  from remove_product_from_order_failures [of ?s 10 8] c
  have 3: "remove_product_from_order 10 8 ?s = (Inl ProductNotInOrder, ?s)" by blast
  from 1 2 3 show ?thesis by blast
qed

text \<open>
  Claim C8. \<open>get_orders_for_user\<close> always succeeds; its list holds exactly the orders
  whose \<open>user_id\<close> is the given one, by descending \<open>order_date\<close>; it is empty when
  there is no such order, and it does not depend on the table of users.
\<close>

theorem get_orders_for_user_sorted:
  "\<exists>os. get_orders_for_user uid s = Inr (OrdersJson os)
        \<and> mset os = mset (filter (\<lambda>r. user_id r = uid) (orders s))
        \<and> sorted_wrt (\<lambda>a b. order_date a \<ge> order_date b) os
        \<and> ((\<forall>r\<in>set (orders s). user_id r \<noteq> uid) \<longrightarrow> os = [])
        \<and> (\<forall>us. get_orders_for_user uid (s\<lparr>users := us\<rparr>) = Inr (OrdersJson os))"
proof -
  let ?os = "rev (sort_key order_date (filter (\<lambda>r. user_id r = uid) (orders s)))"
  have "sorted (map order_date (sort_key order_date (filter (\<lambda>r. user_id r = uid) (orders s))))"
    by (rule sorted_sort_key)
  then have srt: "sorted_wrt (\<lambda>a b. order_date a \<ge> order_date b) ?os"
    by (simp add: sorted_wrt_rev sorted_map)
  have emp: "(\<forall>r\<in>set (orders s). user_id r \<noteq> uid) \<longrightarrow> ?os = []"
    by (simp add: filter_empty_conv)
  show ?thesis
    using srt emp by (intro exI [of _ ?os]) (simp add: get_orders_for_user_def)
qed

theorem get_orders_for_user_sorted_witness:
  "get_orders_for_user 1
     \<lparr>users = [\<lparr>u_id = 1, name = ''Ann'', address = None, email = ''ann@shop.org''\<rparr>],
      products = [],
      orders = [\<lparr>o_id = 10, order_date = 100, user_id = 1\<rparr>,
                \<lparr>o_id = 11, order_date = 300, user_id = 1\<rparr>,
                \<lparr>o_id = 12, order_date = 200, user_id = 2\<rparr>],
      order_product = []\<rparr>
    = Inr (OrdersJson [\<lparr>o_id = 11, order_date = 300, user_id = 1\<rparr>,
                       \<lparr>o_id = 10, order_date = 100, user_id = 1\<rparr>])
   \<and> 5 \<notin> set (map user_id (orders
        \<lparr>users = [\<lparr>u_id = 1, name = ''Ann'', address = None, email = ''ann@shop.org''\<rparr>],
         products = [],
         orders = [\<lparr>o_id = 10, order_date = 100, user_id = 1\<rparr>,
                   \<lparr>o_id = 11, order_date = 300, user_id = 1\<rparr>,
                   \<lparr>o_id = 12, order_date = 200, user_id = 2\<rparr>],
         order_product = []\<rparr>))
   \<and> get_orders_for_user 5
     \<lparr>users = [\<lparr>u_id = 1, name = ''Ann'', address = None, email = ''ann@shop.org''\<rparr>],
      products = [],
      orders = [\<lparr>o_id = 10, order_date = 100, user_id = 1\<rparr>,
                \<lparr>o_id = 11, order_date = 300, user_id = 1\<rparr>,
                \<lparr>o_id = 12, order_date = 200, user_id = 2\<rparr>],
      order_product = []\<rparr>
    = Inr (OrdersJson [])"
proof -
  let ?s = "\<lparr>users = [\<lparr>u_id = 1, name = ''Ann'', address = None, email = ''ann@shop.org''\<rparr>],
      products = [],
      orders = [\<lparr>o_id = 10, order_date = 100, user_id = 1\<rparr>,
                \<lparr>o_id = 11, order_date = 300, user_id = 1\<rparr>,
                \<lparr>o_id = 12, order_date = 200, user_id = 2\<rparr>],
      order_product = []\<rparr>"
  have none: "\<forall>r\<in>set (orders ?s). user_id r \<noteq> 5" by simp
  from get_orders_for_user_sorted [of 5 ?s] none
  have e: "get_orders_for_user 5 ?s = Inr (OrdersJson [])" by auto
  from get_orders_for_user_sorted [of 1 ?s] obtain os where
    os: "get_orders_for_user 1 ?s = Inr (OrdersJson os)"
      "mset os = mset (filter (\<lambda>r. user_id r = 1) (orders ?s))"
      "sorted_wrt (\<lambda>a b. order_date a \<ge> order_date b) os"
    by blast
  have "get_orders_for_user 1 ?s = Inr (OrdersJson [\<lparr>o_id = 11, order_date = 300, user_id = 1\<rparr>,
                       \<lparr>o_id = 10, order_date = 100, user_id = 1\<rparr>])"
    using os(1) by (simp add: get_orders_for_user_def sort_key_def)
  moreover have "5 \<notin> set (map user_id (orders ?s))" by simp
  ultimately show ?thesis using e by blast
qed

text \<open>
  Claim C9. With user 1 and products 7 and 8 stored, \<open>create_order\<close> on the body
  \<open>{"user_id": 1, "order_date": "2025-08-15T14:30:00", "product_ids": [7, 8]}\<close>
  does not create the order with its two products: the answer is the validation message
  'Unknown field.' for \<open>product_ids\<close>, and the store is unchanged.
\<close>

theorem create_order_with_products_unknown_field:
  "create_order (map_of [(''2025-08-15T14:30:00'', 1755268200)]) 1762250000 5
     \<lparr>op_id = Absent, op_order_date = Val ''2025-08-15T14:30:00'', op_user_id = Val 1,
      op_product_ids = Val (PidList [7, 8]), op_unknown = []\<rparr>
     \<lparr>users = [\<lparr>u_id = 1, name = ''Ann'', address = None, email = ''ann@shop.org''\<rparr>],
      products = [\<lparr>p_id = 7, product_name = ''Lamp'', price = 12\<rparr>,
                  \<lparr>p_id = 8, product_name = ''Desk'', price = 80\<rparr>],
      orders = [], order_product = []\<rparr>
   = (Inl (ValidationError [(''product_ids'', [''Unknown field.''])]),
      \<lparr>users = [\<lparr>u_id = 1, name = ''Ann'', address = None, email = ''ann@shop.org''\<rparr>],
       products = [\<lparr>p_id = 7, product_name = ''Lamp'', price = 12\<rparr>,
                   \<lparr>p_id = 8, product_name = ''Desk'', price = 80\<rparr>],
       orders = [], order_product = []\<rparr>)"
  by (simp add: create_order_def order_schema_load_def order_schema_errors_def collect_def)

text \<open>
  Claim C10. On an existing user id (user ids being unique) \<open>update_user\<close> with the
  empty body succeeds, answers with the stored user and leaves the store unchanged;
  likewise \<open>update_product\<close> with the empty body on an existing product id.
\<close>

theorem update_empty_identity:
  "(pk_users s \<and> get_user_row s uid = Some user \<longrightarrow>
      update_user email_valid uid
        \<lparr>up_id = Absent, up_name = Absent, up_email = Absent, up_address = Absent,
         up_unknown = []\<rparr> s = (Inr (UserJson user), s))
   \<and> (pk_products s \<and> get_product_row s pid = Some product \<longrightarrow>
      update_product pid
        \<lparr>pp_id = Absent, pp_product_name = Absent, pp_price = Absent, pp_unknown = []\<rparr> s
        = (Inr (ProductJson product), s))"
proof (intro conjI impI)
  assume a: "pk_users s \<and> get_user_row s uid = Some user"
  then have "map (\<lambda>r. if u_id r = uid then user else r) (users s) = users s"
    using map_upd_id [of u_id "users s" uid user] by (simp add: pk_users_def get_user_row_def)
  with a show "update_user email_valid uid
        \<lparr>up_id = Absent, up_name = Absent, up_email = Absent, up_address = Absent,
         up_unknown = []\<rparr> s = (Inr (UserJson user), s)"
    by (simp add: update_user_def user_load_cases user_schema_errors_def collect_def Let_def user_eta)
next
  assume a: "pk_products s \<and> get_product_row s pid = Some product"
  then have "map (\<lambda>r. if p_id r = pid then product else r) (products s) = products s"
    using map_upd_id [of p_id "products s" pid product]
    by (simp add: pk_products_def get_product_row_def)
  with a show "update_product pid
        \<lparr>pp_id = Absent, pp_product_name = Absent, pp_price = Absent, pp_unknown = []\<rparr> s
        = (Inr (ProductJson product), s)"
    by (simp add: update_product_def product_load_cases product_schema_errors_def collect_def Let_def product_eta)
qed

theorem update_empty_identity_witness:
  "pk_users \<lparr>users = [\<lparr>u_id = 1, name = ''Ann'', address = None, email = ''ann@shop.org''\<rparr>],
             products = [\<lparr>p_id = 7, product_name = ''Lamp'', price = 12\<rparr>],
             orders = [], order_product = []\<rparr>
   \<and> pk_products \<lparr>users = [\<lparr>u_id = 1, name = ''Ann'', address = None, email = ''ann@shop.org''\<rparr>],
             products = [\<lparr>p_id = 7, product_name = ''Lamp'', price = 12\<rparr>],
             orders = [], order_product = []\<rparr>
   \<and> update_user (\<lambda>a. CHR ''@'' \<in> set a) 1
        \<lparr>up_id = Absent, up_name = Absent, up_email = Absent, up_address = Absent,
         up_unknown = []\<rparr>
        \<lparr>users = [\<lparr>u_id = 1, name = ''Ann'', address = None, email = ''ann@shop.org''\<rparr>],
         products = [\<lparr>p_id = 7, product_name = ''Lamp'', price = 12\<rparr>],
         orders = [], order_product = []\<rparr>
     = (Inr (UserJson \<lparr>u_id = 1, name = ''Ann'', address = None, email = ''ann@shop.org''\<rparr>),
        \<lparr>users = [\<lparr>u_id = 1, name = ''Ann'', address = None, email = ''ann@shop.org''\<rparr>],
         products = [\<lparr>p_id = 7, product_name = ''Lamp'', price = 12\<rparr>],
         orders = [], order_product = []\<rparr>)
   \<and> update_product 7
        \<lparr>pp_id = Absent, pp_product_name = Absent, pp_price = Absent, pp_unknown = []\<rparr>
        \<lparr>users = [\<lparr>u_id = 1, name = ''Ann'', address = None, email = ''ann@shop.org''\<rparr>],
         products = [\<lparr>p_id = 7, product_name = ''Lamp'', price = 12\<rparr>],
         orders = [], order_product = []\<rparr>
     = (Inr (ProductJson \<lparr>p_id = 7, product_name = ''Lamp'', price = 12\<rparr>),
        \<lparr>users = [\<lparr>u_id = 1, name = ''Ann'', address = None, email = ''ann@shop.org''\<rparr>],
         products = [\<lparr>p_id = 7, product_name = ''Lamp'', price = 12\<rparr>],
         orders = [], order_product = []\<rparr>)"
proof -
  let ?ann = "\<lparr>u_id = 1, name = ''Ann'', address = None, email = ''ann@shop.org''\<rparr>"
  let ?lamp = "\<lparr>p_id = 7, product_name = ''Lamp'', price = 12\<rparr>"
  let ?s = "\<lparr>users = [?ann], products = [?lamp], orders = [], order_product = []\<rparr>"
  have pu: "pk_users ?s" by (simp add: pk_users_def)
  have pp: "pk_products ?s" by (simp add: pk_products_def)
  have gu: "get_user_row ?s 1 = Some ?ann" by (simp add: get_user_row_def)
  have gp: "get_product_row ?s 7 = Some ?lamp" by (simp add: get_product_row_def)
  from update_empty_identity [of ?s 1 ?ann "\<lambda>a. CHR ''@'' \<in> set a" 7 ?lamp] pu pp gu gp
  show ?thesis by blast
qed

end
